theory Spec2Isabelle
  imports Main
begin

section \<open>JavaScript values\<close>

text \<open>
  The plugin \<^verbatim>\<open>src/js/jquery.postMessage.js\<close> is dynamically typed. The values that reach
  its functions are modelled by \<open>jsval\<close>; \<open>Obj\<close> stands for any object that is neither a
  string nor a function (a regular expression, a plain object, an array).
  Strings are byte lists, read as the UTF-8 form of the JavaScript string.
  Functions passed as allow-rules are kept apart in \<open>allow_rule\<close>; only the truthiness
  of what they return matters to the code, so a rule function returns \<open>bool\<close>.
\<close>

datatype jsval = Undefined | Null | Bool bool | Num int | Str string | Obj

fun truthy :: "jsval \<Rightarrow> bool" where
  "truthy Undefined = False"
| "truthy Null = False"
| "truthy (Bool b) = b"
| "truthy (Num n) = (n \<noteq> 0)"
| "truthy (Str s) = (s \<noteq> [])"
| "truthy Obj = True"

fun is_string :: "jsval \<Rightarrow> bool" where
  "is_string (Str s) = True"
| "is_string v = False"

datatype allow_rule = RVal jsval | RFun "jsval \<Rightarrow> bool"

section \<open>OriginMatcher: \<^verbatim>\<open>isOriginMatch\<close>\<close>

text \<open>
  \<^verbatim>\<open>
  function isOriginMatch(originPatternOrFunction, sourceOrigin) {
      if (typeof(originPatternOrFunction) == "string" &&
          sourceOrigin !== originPatternOrFunction &&
          originPatternOrFunction !== "*")       { return false; }
      else if ($.isFunction(originPatternOrFunction) &&
          !originPatternOrFunction(sourceOrigin)) { return false; }
      return true;
  }
  \<close>
\<close>

fun isOriginMatch :: "allow_rule \<Rightarrow> jsval \<Rightarrow> bool" where
  "isOriginMatch (RVal v) sourceOrigin =
     (if is_string v \<and> sourceOrigin \<noteq> v \<and> v \<noteq> Str ''*'' then False else True)"
| "isOriginMatch (RFun f) sourceOrigin =
     (if \<not> f sourceOrigin then False else True)"

section \<open>Results, errors and number formatting\<close>

text \<open>
  Every \<^verbatim>\<open>throw\<close> of the plugin is a value of \<open>error\<close>. \<open>NativeError num\<close> is an
  exception raised by the browser, with its \<^verbatim>\<open>number\<close> property (\<open>None\<close> when the
  exception has none). A call can also exhaust the JavaScript call stack: the recursive
  functions take the remaining stack depth as their first argument and return
  \<open>OutOfStack\<close> when it is used up.
\<close>

datatype error =
    MissingOrigin | MissingTarget | SelfReference | UnresolvableWindow
  | NoCallback | NativeError "int option" | URIError

datatype 'a result = OutOfStack | Throw error | Return 'a

text \<open>String concatenation with a number, \<^verbatim>\<open>'f,' + i\<close>: the decimal digits of \<open>i\<close>.\<close>

definition digitChar :: "nat \<Rightarrow> char" where
  "digitChar d = char_of (48 + d)"

fun numberToString :: "nat \<Rightarrow> string" where
  "numberToString n =
     (if n < 10 then [digitChar n]
      else numberToString (n div 10) @ [digitChar (n mod 10)])"

declare numberToString.simps [simp del]

section \<open>WindowPathResolver: the window graph\<close>

text \<open>
  A window handle is compared by identity only, so it is a number. What a script can read
  of a window is its child frames (\<^verbatim>\<open>window.frames\<close>, indexed from 0), its
  \<^verbatim>\<open>parent\<close> and its \<^verbatim>\<open>opener\<close> (\<open>None\<close> for a null reference; a top-level window is
  its own parent). \<open>framesGuard\<close> is what evaluating
  \<^verbatim>\<open>window.frames[0] instanceof Window\<close> gives in the calling script: true, false, or
  an exception with its \<^verbatim>\<open>number\<close>.
  The loop \<^verbatim>\<open>for (var frame in window.frames)\<close> is taken to visit the frame indices in
  ascending order; reading \<^verbatim>\<open>frames\<close>, \<^verbatim>\<open>parent\<close> and \<^verbatim>\<open>opener\<close> and comparing
  handles never raises.
\<close>

type_synonym wid = nat

datatype guard = GTrue | GFalse | GThrows "int option"

record win =
  frames :: "wid list"
  parent :: "wid option"
  opener :: "wid option"
  framesGuard :: guard

type_synonym graph = "wid \<Rightarrow> win"

text \<open>
  The \<^verbatim>\<open>level\<close> argument of \<^verbatim>\<open>transverseLevel\<close>: the first call passes none
  (\<^verbatim>\<open>undefined\<close>), and \<^verbatim>\<open>undefined + 1\<close> is \<^verbatim>\<open>NaN\<close>. A comparison \<^verbatim>\<open>>=\<close> with
  \<^verbatim>\<open>undefined\<close> or \<^verbatim>\<open>NaN\<close> is false.
\<close>

datatype level = LUndefined | LNaN | LNum nat

fun level_ge4 :: "level \<Rightarrow> bool" where
  "level_ge4 (LNum k) = (k \<ge> 4)"
| "level_ge4 LUndefined = False"
| "level_ge4 LNaN = False"

fun level_inc :: "level \<Rightarrow> level" where
  "level_inc (LNum k) = LNum (k + 1)"
| "level_inc LUndefined = LNaN"
| "level_inc LNaN = LNaN"

text \<open>The first index \<open>i\<close> (counted from \<open>k\<close>) with \<^verbatim>\<open>window.frames[i] === target\<close>.\<close>

fun frameIndex :: "wid list \<Rightarrow> wid \<Rightarrow> nat \<Rightarrow> nat option" where
  "frameIndex [] target k = None"
| "frameIndex (f # fs) target k = (if f = target then Some k else frameIndex fs target (Suc k))"

text \<open>
  The first block of \<^verbatim>\<open>transverseLevel\<close> (lines 119 to 148): the direct child frames.
  An exception of the guard numbered \<open>-2147024891\<close> is swallowed at each frame, one
  numbered \<open>-2146823279\<close> ends the loop; any other is thrown to the caller.
\<close>

definition directFrame :: "win \<Rightarrow> wid \<Rightarrow> string option result" where
  "directFrame w target =
     (if frames w = [] then Return None
      else case framesGuard w of
          GTrue \<Rightarrow>
            (case frameIndex (frames w) target 0 of
               Some i \<Rightarrow> Return (Some (''f,'' @ numberToString i))
             | None \<Rightarrow> Return None)
        | GFalse \<Rightarrow> Return None
        | GThrows num \<Rightarrow>
            if num = Some (- 2147024891) \<or> num = Some (- 2146823279) then Return None
            else Throw (NativeError num))"

text \<open>
  \<^verbatim>\<open>transverseLevel(window, target, level)\<close>, lines 117 to 199. The result \<open>Return None\<close>
  is the JavaScript \<^verbatim>\<open>false\<close>. \<open>searchFrames\<close> is the loop of lines 170 to 177 over the
  child frames, from index \<open>i\<close>. The first argument is the call depth still available.
\<close>

fun transverseLevel :: "nat \<Rightarrow> graph \<Rightarrow> wid \<Rightarrow> wid \<Rightarrow> level \<Rightarrow> string option result"
and searchFrames :: "nat \<Rightarrow> graph \<Rightarrow> wid list \<Rightarrow> nat \<Rightarrow> wid \<Rightarrow> level \<Rightarrow> string option result"
where
  "transverseLevel 0 g w target lvl = OutOfStack"
| "transverseLevel (Suc n) g w target lvl =
     (case directFrame (g w) target of
        OutOfStack \<Rightarrow> OutOfStack
      | Throw e \<Rightarrow> Throw e
      | Return (Some r) \<Rightarrow> Return (Some r)
      | Return None \<Rightarrow>
          if parent (g w) = Some target then Return (Some ''p'')
          else if opener (g w) = Some target then Return (Some ''o'')
          else if level_ge4 lvl then Return None
          else
            (case searchFrames n g (frames (g w)) 0 target (level_inc lvl) of
               OutOfStack \<Rightarrow> OutOfStack
             | Throw e \<Rightarrow> Throw e
             | Return (Some r) \<Rightarrow> Return (Some r)
             | Return None \<Rightarrow>
                 (case (case parent (g w) of
                          None \<Rightarrow> Return None
                        | Some p \<Rightarrow>
                            if p \<noteq> w then transverseLevel n g p target (level_inc lvl)
                            else Return None) of
                    OutOfStack \<Rightarrow> OutOfStack
                  | Throw e \<Rightarrow> Throw e
                  | Return (Some r) \<Rightarrow> Return (Some (''p.'' @ r))
                  | Return None \<Rightarrow>
                      (case (case opener (g w) of
                               None \<Rightarrow> Return None
                             | Some op \<Rightarrow>
                                 if op \<noteq> w then transverseLevel n g op target (level_inc lvl)
                                 else Return None) of
                         OutOfStack \<Rightarrow> OutOfStack
                       | Throw e \<Rightarrow> Throw e
                       | Return (Some r) \<Rightarrow> Return (Some (''o'' @ r))
                       | Return None \<Rightarrow> Return None))))"
| "searchFrames n g [] i target lvl = Return None"
| "searchFrames n g (f # fs) i target lvl =
     (case transverseLevel n g f target lvl of
        OutOfStack \<Rightarrow> OutOfStack
      | Throw e \<Rightarrow> Throw e
      | Return (Some r) \<Rightarrow> Return (Some (''f,'' @ numberToString i @ ''.'' @ r))
      | Return None \<Rightarrow> searchFrames n g fs (Suc i) target lvl)"

text \<open>
  \<^verbatim>\<open>serializeWindowReference(currentWindow, targetWindow)\<close>, lines 208 to 245. The
  target is a window name or a window; the recursion is started with no \<^verbatim>\<open>level\<close>.
\<close>

datatype target = TName string | TWin wid

fun serializeWindowReference :: "nat \<Rightarrow> graph \<Rightarrow> wid \<Rightarrow> target \<Rightarrow> string result" where
  "serializeWindowReference n g currentWindow (TName name) = Return (CHR '':'' # name)"
| "serializeWindowReference n g currentWindow (TWin targetWindow) =
     (if currentWindow = targetWindow then Throw SelfReference
      else if parent (g currentWindow) \<noteq> None
              \<and> parent (g currentWindow) \<noteq> Some currentWindow
              \<and> parent (g currentWindow) = Some targetWindow then Return ''p''
      else if opener (g currentWindow) \<noteq> None
              \<and> opener (g currentWindow) \<noteq> Some currentWindow
              \<and> opener (g currentWindow) = Some targetWindow then Return ''o''
      else case transverseLevel n g currentWindow targetWindow LUndefined of
             OutOfStack \<Rightarrow> OutOfStack
           | Throw e \<Rightarrow> Throw e
           | Return (Some r) \<Rightarrow> Return r
           | Return None \<Rightarrow> Throw UnresolvableWindow)"

section \<open>URL helpers\<close>

text \<open>
  \<^verbatim>\<open>getDomainFromUrl(url) = url.replace(/([^:]+:\/\/[^\/]+).*/, '$1')\<close>.
  The regular expression is tried at each start position from the left. At one
  position, \<^verbatim>\<open>[^:]+\<close> must stop at the first colon, \<^verbatim>\<open>[^\/]+\<close> takes the longest run
  without a slash, and \<^verbatim>\<open>.*\<close> runs to the next line terminator (LF, CR, U+2028 or
  U+2029, the last two as their three UTF-8 bytes). The match is replaced by its group.
\<close>

definition matchDomainAt :: "string \<Rightarrow> (string \<times> string) option" where
  "matchDomainAt s =
     (let scheme = takeWhile (\<lambda>c. c \<noteq> CHR '':'') s;
          r = dropWhile (\<lambda>c. c \<noteq> CHR '':'') s
      in if scheme = [] \<or> take 3 r \<noteq> ''://'' then None
         else let host = takeWhile (\<lambda>c. c \<noteq> CHR ''/'') (drop 3 r);
                  rest = dropWhile (\<lambda>c. c \<noteq> CHR ''/'') (drop 3 r)
              in if host = [] then None else Some (scheme @ ''://'' @ host, rest))"

definition lineTerminatorAhead :: "string \<Rightarrow> bool" where
  "lineTerminatorAhead s =
     (take 1 s = [CHR 0x0A] \<or> take 1 s = [CHR 0x0D]
      \<or> take 3 s = [CHR 0xE2, CHR 0x80, CHR 0xA8] \<or> take 3 s = [CHR 0xE2, CHR 0x80, CHR 0xA9])"

fun skipDotStar :: "string \<Rightarrow> string" where
  "skipDotStar [] = []"
| "skipDotStar (c # cs) = (if lineTerminatorAhead (c # cs) then c # cs else skipDotStar cs)"

fun getDomainFromUrl :: "string \<Rightarrow> string" where
  "getDomainFromUrl [] = []"
| "getDomainFromUrl (c # cs) =
     (case matchDomainAt (c # cs) of
        Some (domain, rest) \<Rightarrow> domain @ skipDotStar rest
      | None \<Rightarrow> c # getDomainFromUrl cs)"

declare getDomainFromUrl.simps [simp del]

text \<open>
  \<^verbatim>\<open>encodeURIComponent\<close>: every byte outside the unreserved set becomes \<^verbatim>\<open>%XX\<close> with
  upper-case digits.
\<close>

definition hexDigit :: "nat \<Rightarrow> char" where
  "hexDigit d = (if d < 10 then char_of (48 + d) else char_of (55 + d))"

definition unreserved :: "char \<Rightarrow> bool" where
  "unreserved c =
     (c \<in> set ''ABCDEFGHIJKLMNOPQRSTUVWXYZabcdefghijklmnopqrstuvwxyz0123456789-_.!~*()''
      \<or> c = CHR 0x27)"

definition encodeURIComponent :: "string \<Rightarrow> string" where
  "encodeURIComponent s =
     concat (map (\<lambda>c. if unreserved c then [c]
                       else [CHR ''%'', hexDigit (of_char c div 16), hexDigit (of_char c mod 16)]) s)"

text \<open>
  \<^verbatim>\<open>decodeURIComponent\<close>: \<^verbatim>\<open>%XX\<close> becomes the byte \<open>XX\<close>; a byte of 128 or more must
  start a well-formed UTF-8 sequence whose other bytes are escapes too. \<open>None\<close> is the
  \<^verbatim>\<open>URIError\<close> the builtin throws.
\<close>

definition hexValue :: "char \<Rightarrow> nat option" where
  "hexValue c =
     (let n = (of_char c :: nat)
      in if 48 \<le> n \<and> n \<le> 57 then Some (n - 48)
         else if 65 \<le> n \<and> n \<le> 70 then Some (n - 55)
         else if 97 \<le> n \<and> n \<le> 102 then Some (n - 87)
         else None)"

fun escapeAt :: "string \<Rightarrow> (nat \<times> string) option" where
  "escapeAt (p # a # b # rest) =
     (if p = CHR ''%'' then
        (case (hexValue a, hexValue b) of
           (Some x, Some y) \<Rightarrow> Some (16 * x + y, rest)
         | _ \<Rightarrow> None)
      else None)"
| "escapeAt s = None"

fun readEscapes :: "nat \<Rightarrow> string \<Rightarrow> (nat list \<times> string) option" where
  "readEscapes 0 s = Some ([], s)"
| "readEscapes (Suc m) s =
     (case escapeAt s of
        None \<Rightarrow> None
      | Some (b, r) \<Rightarrow>
          (case readEscapes m r of
             None \<Rightarrow> None
           | Some (bs, r') \<Rightarrow> Some (b # bs, r')))"

text \<open>
  For a lead byte: how many continuation bytes follow and the range of the first one
  (the others are in 128 to 191).
\<close>

definition utf8Lead :: "nat \<Rightarrow> (nat \<times> nat \<times> nat) option" where
  "utf8Lead b =
     (if 0xC2 \<le> b \<and> b \<le> 0xDF then Some (1, 0x80, 0xBF)
      else if b = 0xE0 then Some (2, 0xA0, 0xBF)
      else if b = 0xED then Some (2, 0x80, 0x9F)
      else if 0xE1 \<le> b \<and> b \<le> 0xEF then Some (2, 0x80, 0xBF)
      else if b = 0xF0 then Some (3, 0x90, 0xBF)
      else if 0xF1 \<le> b \<and> b \<le> 0xF3 then Some (3, 0x80, 0xBF)
      else if b = 0xF4 then Some (3, 0x80, 0x8F)
      else None)"

definition continuationOk :: "nat \<Rightarrow> nat \<Rightarrow> nat list \<Rightarrow> bool" where
  "continuationOk lo hi bs =
     (case bs of
        [] \<Rightarrow> False
      | c # cs \<Rightarrow> lo \<le> c \<and> c \<le> hi \<and> list_all (\<lambda>x. 0x80 \<le> x \<and> x \<le> 0xBF) cs)"

lemma escapeAt_shorter: "escapeAt s = Some (b, r) \<Longrightarrow> length r < length s"
  by (induction s rule: escapeAt.induct) (auto split: if_splits option.splits)

lemma readEscapes_shorter: "readEscapes m s = Some (bs, r) \<Longrightarrow> length r \<le> length s"
proof (induction m arbitrary: s bs r)
  case 0
  then show ?case by simp
next
  case (Suc m)
  then show ?case
    by (fastforce split: option.splits dest: escapeAt_shorter)
qed

function decodeURIComponent :: "string \<Rightarrow> string option" where
  "decodeURIComponent [] = Some []"
| "decodeURIComponent (c # cs) =
     (if c \<noteq> CHR ''%'' then map_option ((#) c) (decodeURIComponent cs)
      else case escapeAt (c # cs) of
          None \<Rightarrow> None
        | Some (b, r) \<Rightarrow>
            if b < 0x80 then map_option ((#) (char_of b)) (decodeURIComponent r)
            else case utf8Lead b of
                None \<Rightarrow> None
              | Some (k, lo, hi) \<Rightarrow>
                  (case readEscapes k r of
                     None \<Rightarrow> None
                   | Some (bs, r') \<Rightarrow>
                       if continuationOk lo hi bs
                       then map_option ((@) (map char_of (b # bs))) (decodeURIComponent r')
                       else None))"
  by pat_completeness auto
termination
proof (relation "measure length")
  show "wf (measure length)" by simp
next
  fix c :: char and cs :: string
  show "(cs, c # cs) \<in> measure length" by simp
next
  fix c :: char and cs :: string and x2 b r
  assume "escapeAt (c # cs) = Some x2" "(b, r) = x2"
  then have "length r < length (c # cs)" using escapeAt_shorter [of "c # cs" b r] by simp
  then show "(r, c # cs) \<in> measure length" by simp
next
  fix c :: char and cs :: string and x2 b r x2a k y lo hi x2b bs r'
  assume "escapeAt (c # cs) = Some x2" "(b, r) = x2"
    "readEscapes k r = Some x2b" "(bs, r') = x2b"
  then have "length r < length (c # cs)" "length r' \<le> length r"
    using escapeAt_shorter [of "c # cs" b r] readEscapes_shorter [of k r bs r'] by simp_all
  then show "(r', c # cs) \<in> measure length" by simp
qed

declare decodeURIComponent.simps [simp del]

section \<open>MessageReceiver: \<^verbatim>\<open>$.receiveMessage\<close> and the delivery hook\<close>

text \<open>
  The handler that \<^verbatim>\<open>$.receiveMessage\<close> binds (lines 354 to 369) takes the jQuery event
  and two optional extra arguments. A jQuery event made from a native message event
  carries it as \<^verbatim>\<open>originalEvent\<close>; a triggered one has none. The handler either calls
  the callback with a \<open>{data, origin}\<close> object (\<open>Some\<close>) or returns \<^verbatim>\<open>false\<close> (\<open>None\<close>).
  \<^verbatim>\<open>
  function(event, data, origin) {
      if (!data)   { data = event.originalEvent ? event.originalEvent.data : event.data; }
      if (!origin) { origin = event.originalEvent ? event.originalEvent.origin : event.origin; }
      return isOriginMatch(allowedOriginOrFunction,
                 event.originalEvent ? event.originalEvent.origin : origin) ?
          callback({ 'data': data, 'origin': origin }) : false;
  }
  \<close>
\<close>

record nativeEvent =
  neData :: jsval
  neOrigin :: jsval

record jqEvent =
  originalEvent :: "nativeEvent option"
  evData :: jsval
  evOrigin :: jsval

record callbackArg =
  data :: jsval
  origin :: jsval

definition messageHandler ::
  "allow_rule \<Rightarrow> jqEvent \<Rightarrow> jsval \<Rightarrow> jsval \<Rightarrow> callbackArg option" where
  "messageHandler allowedOriginOrFunction event data0 origin0 =
     (let data1 = (if \<not> truthy data0
                   then (case originalEvent event of
                           Some oe \<Rightarrow> neData oe | None \<Rightarrow> evData event)
                   else data0);
          origin1 = (if \<not> truthy origin0
                     then (case originalEvent event of
                             Some oe \<Rightarrow> neOrigin oe | None \<Rightarrow> evOrigin event)
                     else origin0)
      in if isOriginMatch allowedOriginOrFunction
              (case originalEvent event of Some oe \<Rightarrow> neOrigin oe | None \<Rightarrow> origin1)
         then Some \<lparr>data = data1, origin = origin1\<rparr>
         else None)"

text \<open>
  The page: the number of native message listeners installed on the window, and the
  dispatch table of registered (callback, allow-rule) entries in registration order.
  A callback is named by a number; it records what it is called with and does not throw.
\<close>

record page =
  nativeListeners :: nat
  handlers :: "(nat \<times> allow_rule) list"

definition initialPage :: page where
  "initialPage = \<lparr>nativeListeners = 0, handlers = []\<rparr>"

text \<open>
  Modelled from the spec: the event registry behind \<^verbatim>\<open>$(window).on('message', handler)\<close>
  is jQuery's and is not in \<^verbatim>\<open>src/\<close>. Section 4.5 of the spec: a registration adds one
  entry to the page-wide dispatch table, and a single native listener is installed, at
  most once per page.
\<close>

definition jqOn :: "page \<Rightarrow> nat \<times> allow_rule \<Rightarrow> page" where
  "jqOn p entry =
     \<lparr>nativeListeners = (if nativeListeners p = 0 then 1 else nativeListeners p),
      handlers = handlers p @ [entry]\<rparr>"

fun ruleTruthy :: "allow_rule \<Rightarrow> bool" where
  "ruleTruthy (RVal v) = truthy v"
| "ruleTruthy (RFun f) = True"

text \<open>\<^verbatim>\<open>$.receiveMessage(callback, allowedOriginOrFunction)\<close>, lines 342 to 370.\<close>

definition defaultRule :: "allow_rule \<Rightarrow> allow_rule" where
  "defaultRule allowedOriginOrFunction =
     (if \<not> ruleTruthy allowedOriginOrFunction then RVal (Str ''*'')
      else allowedOriginOrFunction)"

definition receiveMessage :: "page \<Rightarrow> nat option \<Rightarrow> allow_rule \<Rightarrow> page result" where
  "receiveMessage p callback allowedOriginOrFunction =
     (case callback of
        None \<Rightarrow> Throw NoCallback
      | Some cb \<Rightarrow> Return (jqOn p (cb, defaultRule allowedOriginOrFunction)))"

text \<open>
  A script that calls \<^verbatim>\<open>$.receiveMessage\<close> several times; a call that throws leaves the
  page as it was.
\<close>

fun receiveAll :: "page \<Rightarrow> (nat option \<times> allow_rule) list \<Rightarrow> page" where
  "receiveAll p [] = p"
| "receiveAll p ((callback, rule) # rest) =
     (case receiveMessage p callback rule of
        Return p' \<Rightarrow> receiveAll p' rest
      | _ \<Rightarrow> receiveAll p rest)"

text \<open>
  Running the dispatch table on one event: the calls made, as (callback, argument), in
  registration order.
\<close>

definition runHandlers ::
  "(nat \<times> allow_rule) list \<Rightarrow> jqEvent \<Rightarrow> jsval \<Rightarrow> jsval \<Rightarrow> (nat \<times> callbackArg) list" where
  "runHandlers hs event data0 origin0 =
     List.map_filter
       (\<lambda>(cb, rule). map_option (Pair cb) (messageHandler rule event data0 origin0)) hs"

text \<open>
  Modelled from the spec: jQuery's dispatch is not in \<^verbatim>\<open>src/\<close>. A native message event
  reaches every installed native listener; the listener wraps the event and calls each
  entry of the table with the event alone.
\<close>

definition nativeMessage :: "page \<Rightarrow> nativeEvent \<Rightarrow> (nat \<times> callbackArg) list" where
  "nativeMessage p ne =
     concat (replicate (nativeListeners p)
       (runHandlers (handlers p)
          \<lparr>originalEvent = Some ne, evData = Undefined, evOrigin = Undefined\<rparr>
          Undefined Undefined))"

text \<open>
  Modelled from the spec: \<^verbatim>\<open>$(window).trigger('message', a, b)\<close> is jQuery's too. It
  calls each entry of the table with a synthetic event, which has no \<^verbatim>\<open>originalEvent\<close>,
  no \<^verbatim>\<open>data\<close> and no \<^verbatim>\<open>origin\<close>, followed by the extra arguments it forwards. The spec
  has the hook dispatch message and origin; jQuery documents \<^verbatim>\<open>.trigger(type, extra)\<close>
  with one extra parameter. The number \<open>k\<close> of trailing arguments that reach the
  handlers is therefore a parameter: 2 for the spec's reading, 1 for jQuery's signature.
\<close>

definition argAt :: "jsval list \<Rightarrow> nat \<Rightarrow> jsval" where
  "argAt args i = (if i < length args then args ! i else Undefined)"

definition jqTrigger :: "nat \<Rightarrow> page \<Rightarrow> jsval list \<Rightarrow> (nat \<times> callbackArg) list" where
  "jqTrigger k p args =
     runHandlers (handlers p)
       \<lparr>originalEvent = None, evData = Undefined, evOrigin = Undefined\<rparr>
       (argAt (take k args) 0) (argAt (take k args) 1)"

text \<open>
  \<^verbatim>\<open>
  window.__receiveMessageHook = function(message, origin) {
      $(window).trigger('message', decodeURIComponent(message), origin);
  };
  \<close>
\<close>

definition receiveMessageHook ::
  "nat \<Rightarrow> page \<Rightarrow> string \<Rightarrow> jsval \<Rightarrow> (nat \<times> callbackArg) list result" where
  "receiveMessageHook k p message origin0 =
     (case decodeURIComponent message of
        None \<Rightarrow> Throw URIError
      | Some decoded \<Rightarrow> Return (jqTrigger k p [Str decoded, origin0]))"

section \<open>MessageSender: \<^verbatim>\<open>$.postMessage\<close>\<close>

text \<open>
  What the sending script finds around it: whether \<^verbatim>\<open>window.postMessage\<close> exists, its
  own window, the window graph, what the native \<^verbatim>\<open>targetWindow.postMessage\<close> call does
  (it returns, or raises an exception with a \<^verbatim>\<open>number\<close>), what reading
  \<^verbatim>\<open>targetWindow.__receiveMessageHook\<close> gives (an access violation, nothing, or the hook
  of the target's page), \<^verbatim>\<open>document.location.href\<close>, the clock, and the call stack.
\<close>

datatype nativeResult = Posted | Raises "int option"

datatype hookAccess = HookDenied | HookAbsent | HookPresent page

record env =
  browserSupportsPostMessage :: bool
  thisWindow :: wid
  windows :: graph
  nativePostMessage :: "wid \<Rightarrow> string \<Rightarrow> string \<Rightarrow> nativeResult"
  hookOf :: "wid \<Rightarrow> hookAccess"
  locationHref :: string
  clock :: nat
  triggerForwards :: nat
  stackDepth :: nat

text \<open>The sender's own state: the counter and the hidden frames appended to the body.\<close>

record sender =
  cacheBuster :: nat
  hiddenFrames :: "string list"

datatype delivery =
    ByNative wid string string
  | ByHook wid "(nat \<times> callbackArg) list"
  | ByProxy string

text \<open>
  Lines 298 to 309: the calls made through the hook, or \<open>None\<close> when the hook cannot be
  read, is absent, or throws (the \<^verbatim>\<open>catch\<close> swallows every exception).
\<close>

definition hookAttempt ::
  "env \<Rightarrow> wid \<Rightarrow> string \<Rightarrow> string \<Rightarrow> (nat \<times> callbackArg) list option" where
  "hookAttempt e targetWindow message targetHost =
     (case hookOf e targetWindow of
        HookPresent p \<Rightarrow>
          (case receiveMessageHook (triggerForwards e) p message (Str targetHost) of
             Return calls \<Rightarrow> Some calls
           | _ \<Rightarrow> None)
      | _ \<Rightarrow> None)"

text \<open>Lines 315 to 333: the proxy frame. \<^verbatim>\<open>targetWindowName || targetWindow\<close> picks the
  name when it is a non-empty string.\<close>

definition proxyTarget :: "string option \<Rightarrow> wid \<Rightarrow> target" where
  "proxyTarget targetWindowName targetWindow =
     (case targetWindowName of
        None \<Rightarrow> TWin targetWindow
      | Some name \<Rightarrow> if name = [] then TWin targetWindow else TName name)"

definition proxySrc :: "env \<Rightarrow> sender \<Rightarrow> string \<Rightarrow> string \<Rightarrow> string \<Rightarrow> string" where
  "proxySrc e s targetHost serializedWindowRef message =
     targetHost @ ''/vp/JS-Lib/jQuery/plugins/postmessage.htm#''
       @ numberToString (clock e) @ numberToString (cacheBuster s) @ ''&''
       @ serializedWindowRef @ ''&'' @ getDomainFromUrl (locationHref e) @ ''&''
       @ encodeURIComponent message"

text \<open>
  Lines 296 to 333 of \<^verbatim>\<open>$.postMessage\<close>: the direct call of the hook, then the proxy
  frame. The result pairs what the call did with the sender's state afterwards.
\<close>

definition postMessageFallback ::
  "env \<Rightarrow> sender \<Rightarrow> string \<Rightarrow> string \<Rightarrow> wid \<Rightarrow> string option
     \<Rightarrow> delivery result \<times> sender" where
  "postMessageFallback e s message targetHost targetWindow targetWindowName =
     (case hookAttempt e targetWindow message targetHost of
        Some calls \<Rightarrow> (Return (ByHook targetWindow calls), s)
      | None \<Rightarrow>
          (case serializeWindowReference (stackDepth e) (windows e) (thisWindow e)
                  (proxyTarget targetWindowName targetWindow) of
             OutOfStack \<Rightarrow> (OutOfStack, s)
           | Throw err \<Rightarrow> (Throw err, s)
           | Return serializedWindowRef \<Rightarrow>
               (Return (ByProxy (proxySrc e s targetHost serializedWindowRef message)),
                \<lparr>cacheBuster = cacheBuster s + 1,
                 hiddenFrames = hiddenFrames s
                   @ [proxySrc e s targetHost serializedWindowRef message]\<rparr>)))"

text \<open>
  \<^verbatim>\<open>$.postMessage(message, targetHost, targetWindow, targetWindowName)\<close>, lines 254 to
  334. An argument that was not passed is \<open>None\<close>. The native call is made when
  \<^verbatim>\<open>window.postMessage\<close> exists; its exception numbered \<open>-2147467262\<close> leads to the
  fallback, any other is thrown again.
\<close>

definition postMessage ::
  "env \<Rightarrow> sender \<Rightarrow> string \<Rightarrow> string option \<Rightarrow> wid option \<Rightarrow> string option
     \<Rightarrow> delivery result \<times> sender" where
  "postMessage e s message targetHost0 targetWindow0 targetWindowName =
     (case targetHost0 of
        None \<Rightarrow> (Throw MissingOrigin, s)
      | Some url \<Rightarrow>
          if url = [] then (Throw MissingOrigin, s)
          else case targetWindow0 of
              None \<Rightarrow> (Throw MissingTarget, s)
            | Some targetWindow \<Rightarrow>
                let targetHost = getDomainFromUrl url
                in if browserSupportsPostMessage e
                   then (case nativePostMessage e targetWindow message targetHost of
                           Posted \<Rightarrow> (Return (ByNative targetWindow message targetHost), s)
                         | Raises num \<Rightarrow>
                             if num \<noteq> Some (- 2147467262) then (Throw (NativeError num), s)
                             else postMessageFallback e s message targetHost targetWindow
                                    targetWindowName)
                   else postMessageFallback e s message targetHost targetWindow
                          targetWindowName)"

section \<open>Example windows, pages and browsers\<close>

text \<open>
  A top-level page (window 0, its own parent) with one frame (window 1). Every other
  window, such as a popup the page opened, is a top-level window whose opener is the
  page; the page has no reference that leads to it.
\<close>

definition cyclicPage :: graph where
  "cyclicPage w =
     (if w = 0 then \<lparr>frames = [1], parent = Some 0, opener = None, framesGuard = GTrue\<rparr>
      else if w = 1 then \<lparr>frames = [], parent = Some 0, opener = None, framesGuard = GFalse\<rparr>
      else \<lparr>frames = [], parent = Some w, opener = Some 0, framesGuard = GFalse\<rparr>)"

text \<open>
  A popup (window 0) opened by a frame (window 1) of another page (window 2): the page
  is the parent of the popup's opener.
\<close>

definition popupGraph :: graph where
  "popupGraph w =
     (if w = 0 then \<lparr>frames = [], parent = Some 0, opener = Some 1, framesGuard = GFalse\<rparr>
      else if w = 1 then \<lparr>frames = [], parent = Some 2, opener = None, framesGuard = GFalse\<rparr>
      else \<lparr>frames = [1], parent = Some 2, opener = None, framesGuard = GTrue\<rparr>)"

text \<open>
  A top-level page (window 0) whose only frame (window 1) is also its opener: the frame
  navigated its parent with \<^verbatim>\<open>window.open\<close>.
\<close>

definition openerFrameGraph :: graph where
  "openerFrameGraph w =
     (if w = 0 then \<lparr>frames = [1], parent = Some 0, opener = Some 1, framesGuard = GTrue\<rparr>
      else \<lparr>frames = [], parent = Some 0, opener = None, framesGuard = GFalse\<rparr>)"

text \<open>Two window objects that are each other's frame and parent.\<close>

definition parentFrameGraph :: graph where
  "parentFrameGraph w =
     (if w = 0 then \<lparr>frames = [1], parent = Some 1, opener = None, framesGuard = GTrue\<rparr>
      else \<lparr>frames = [0], parent = Some 1, opener = None, framesGuard = GTrue\<rparr>)"

text \<open>
  A page (window 0) with two frames (windows 1 and 2) that was opened by window 3.
\<close>

definition familyGraph :: graph where
  "familyGraph w =
     (if w = 0 then \<lparr>frames = [1, 2], parent = Some 0, opener = Some 3, framesGuard = GTrue\<rparr>
      else if w = 3 then \<lparr>frames = [], parent = Some 3, opener = None, framesGuard = GFalse\<rparr>
      else \<lparr>frames = [], parent = Some 0, opener = None, framesGuard = GFalse\<rparr>)"

text \<open>
  A page that registered two callbacks: callback 0 with no allow-rule, callback 1 for
  one origin.
\<close>

definition examplePage :: page where
  "examplePage =
     receiveAll initialPage
       [(Some 0, RVal Undefined), (Some 1, RVal (Str ''http://a.example''))]"

text \<open>
  A browser with a working native \<^verbatim>\<open>postMessage\<close>, and one without it where no window
  exposes the hook. In both the script runs in window 0 of \<open>cyclicPage\<close>.
\<close>

definition nativeEnv :: env where
  "nativeEnv = \<lparr>browserSupportsPostMessage = True, thisWindow = 0,
     windows = cyclicPage,
     nativePostMessage = (\<lambda>w m h. Posted), hookOf = (\<lambda>w. HookPresent examplePage),
     locationHref = ''http://a.example/page'', clock = 1234,
     triggerForwards = 2, stackDepth = 100\<rparr>"

definition legacyEnv :: env where
  "legacyEnv = \<lparr>browserSupportsPostMessage = False, thisWindow = 0,
     windows = cyclicPage,
     nativePostMessage = (\<lambda>w m h. Posted), hookOf = (\<lambda>w. HookAbsent),
     locationHref = ''http://a.example/page'', clock = 1234,
     triggerForwards = 2, stackDepth = 100\<rparr>"

definition sender0 :: sender where
  "sender0 = \<lparr>cacheBuster = 1, hiddenFrames = []\<rparr>"

section \<open>Properties of the origin matcher\<close>

text \<open>
  C7: the wildcard rule \<open>"*"\<close> admits every origin string; a string rule admits the
  origin equal to it; and an exact-origin rule, that is a string rule other than the
  wildcard of the first clause, rejects every origin string different from it.
\<close>

theorem isOriginMatch_string_rules:
  "isOriginMatch (RVal (Str ''*'')) (Str o1)
   \<and> isOriginMatch (RVal (Str o1)) (Str o1)
   \<and> (o1 \<noteq> o2 \<and> o1 \<noteq> ''*'' \<longrightarrow> \<not> isOriginMatch (RVal (Str o1)) (Str o2))"
  by auto

theorem isOriginMatch_string_rules_witness:
  "''http://a.com'' \<noteq> ''http://b.com'' \<and> ''http://a.com'' \<noteq> ''*''
   \<and> \<not> isOriginMatch (RVal (Str ''http://a.com'')) (Str ''http://b.com'')"
  using isOriginMatch_string_rules [of "''http://a.com''" "''http://b.com''"]
  by simp

text \<open>
  C10: a rule that is neither a string nor a function admits every origin; neither
  branch of \<^verbatim>\<open>isOriginMatch\<close> applies to it.
\<close>

theorem isOriginMatch_other_rule:
  "\<not> is_string v \<Longrightarrow> isOriginMatch (RVal v) sourceOrigin"
  by simp

theorem isOriginMatch_other_rule_witness:
  "\<not> is_string (Num 42) \<and> \<not> is_string Obj
   \<and> isOriginMatch (RVal (Num 42)) (Str ''http://a.com'')
   \<and> isOriginMatch (RVal Obj) (Str ''http://a.com'')"
  using isOriginMatch_other_rule [of "Num 42" "Str ''http://a.com''"]
        isOriginMatch_other_rule [of Obj "Str ''http://a.com''"]
  by simp

section \<open>Properties of the window path resolver\<close>

lemma cyclicPage_0:
  "cyclicPage 0 = \<lparr>frames = [1], parent = Some 0, opener = None, framesGuard = GTrue\<rparr>"
  by (simp add: cyclicPage_def)

lemma cyclicPage_1:
  "cyclicPage (Suc 0) = \<lparr>frames = [], parent = Some 0, opener = None, framesGuard = GFalse\<rparr>"
  by (simp add: cyclicPage_def)

text \<open>
  With no numeric \<^verbatim>\<open>level\<close> the test \<^verbatim>\<open>level >= 4\<close> never holds: on the page with one
  frame the search for an unrelated window goes from the page to the frame and back
  until the stack is used up, whatever its depth.
\<close>

lemma cyclicPage_diverges:
  "lvl = LUndefined \<or> lvl = LNaN \<Longrightarrow> w = 0 \<or> w = 1 \<Longrightarrow>
   transverseLevel n cyclicPage w 2 lvl = OutOfStack"
proof (induction n arbitrary: w lvl)
  case 0
  show ?case by simp
next
  case (Suc n)
  have nan: "level_inc lvl = LNaN" using Suc.prems(1) by auto
  have ge: "\<not> level_ge4 lvl" using Suc.prems(1) by auto
  have ih0: "transverseLevel n cyclicPage 0 2 LNaN = OutOfStack" by (rule Suc.IH) simp_all
  have ih1: "transverseLevel n cyclicPage (Suc 0) 2 LNaN = OutOfStack" by (rule Suc.IH) simp_all
  from Suc.prems(2) show ?case
  proof
    assume "w = 0"
    then show ?thesis using nan ge ih1
      by (simp add: cyclicPage_0 directFrame_def)
  next
    assume "w = 1"
    then show ?thesis using nan ge ih0
      by (simp add: cyclicPage_1 directFrame_def)
  qed
qed

text \<open>
  C1, the code at the failing input: \<^verbatim>\<open>serializeWindowReference\<close> starts the search
  without a \<^verbatim>\<open>level\<close>, and on the page with one frame and an unreachable target it
  exhausts every stack depth \<open>n\<close>; it never fails with the unresolvable-window error.
\<close>

theorem serializeWindowReference_unbounded:
  "serializeWindowReference n cyclicPage 0 (TWin 2) = OutOfStack"
  using cyclicPage_diverges [of LUndefined 0 n]
  by (simp add: cyclicPage_0)

text \<open>
  The depth counter does bound the search when it is a number: started at level \<open>k\<close>,
  \<^verbatim>\<open>transverseLevel\<close> returns on every graph within \<open>5 - k\<close> nested calls.
\<close>

lemma directFrame_not_OutOfStack: "directFrame w t \<noteq> OutOfStack"
  by (simp add: directFrame_def split: guard.splits option.splits)

lemma searchFrames_returns:
  "(\<And>f. transverseLevel n g f t lvl \<noteq> OutOfStack) \<Longrightarrow>
   searchFrames n g fs i t lvl \<noteq> OutOfStack"
proof (induction fs arbitrary: i)
  case Nil
  show ?case by simp
next
  case (Cons f fs)
  from Cons.prems have "transverseLevel n g f t lvl \<noteq> OutOfStack" .
  moreover have "searchFrames n g fs (Suc i) t lvl \<noteq> OutOfStack"
    using Cons.IH Cons.prems by blast
  ultimately show ?case
    by (simp split: result.splits option.splits)
qed

lemma transverseLevel_numeric_returns:
  "5 \<le> n + k \<Longrightarrow> 0 < n \<Longrightarrow> transverseLevel n g w t (LNum k) \<noteq> OutOfStack"
proof (induction n arbitrary: k w)
  case 0
  then show ?case by simp
next
  case (Suc n)
  show ?case
  proof (cases "4 \<le> k")
    case True
    then show ?thesis using directFrame_not_OutOfStack [of "g w" t]
      by (auto split: result.splits option.splits)
  next
    case False
    then have a: "5 \<le> n + Suc k" "0 < n" using Suc.prems by auto
    have p: "\<And>v. transverseLevel n g v t (LNum (Suc k)) \<noteq> OutOfStack"
      using Suc.IH [OF a] .
    have s: "searchFrames n g (frames (g w)) 0 t (LNum (Suc k)) \<noteq> OutOfStack"
      using searchFrames_returns [of n g t "LNum (Suc k)"] p by blast
    show ?thesis using directFrame_not_OutOfStack [of "g w" t] s p
      by (auto split: result.splits option.splits)
  qed
qed

lemma cyclicPage_numeric_level:
  "transverseLevel 5 cyclicPage 0 2 (LNum 0) = Return None"
  by code_simp

text \<open>
  C3, the code at the failing input: the popup resolves the page behind its opener by
  an opener hop followed by a parent hop, and the two segments are joined without the
  separator.
\<close>

theorem opener_hop_without_separator:
  "serializeWindowReference (Suc (Suc n)) popupGraph 0 (TWin 2) = Return ''op''"
  by (simp add: popupGraph_def directFrame_def)

text \<open>The sibling hops are joined with the separator: a parent hop, then a frame hop.\<close>

lemma parent_hop_with_separator:
  "serializeWindowReference 2 familyGraph 1 (TWin 2) = Return ''p.f,1''"
  by code_simp

lemma frameIndex_first:
  "i < length fs \<Longrightarrow> fs ! i = t \<Longrightarrow> (\<forall>j < i. fs ! j \<noteq> t) \<Longrightarrow>
   frameIndex fs t k = Some (k + i)"
proof (induction fs arbitrary: i k)
  case Nil
  then show ?case by simp
next
  case (Cons f fs)
  show ?case
  proof (cases i)
    case 0
    then show ?thesis using Cons.prems by simp
  next
    case (Suc i')
    have "f \<noteq> t" using Cons.prems(3) Suc by auto
    moreover have "frameIndex fs t (Suc k) = Some (Suc k + i')"
    proof (rule Cons.IH)
      show "i' < length fs" using Cons.prems(1) Suc by simp
      show "fs ! i' = t" using Cons.prems(2) Suc by simp
      show "\<forall>j < i'. fs ! j \<noteq> t" using Cons.prems(3) Suc by auto
    qed
    ultimately show ?thesis using Suc by simp
  qed
qed

text \<open>
  C4 as the code has it. \<^verbatim>\<open>serializeWindowReference\<close> checks the parent of the source
  first, then its opener, and only then calls \<^verbatim>\<open>transverseLevel\<close>; so a target that is
  the parent resolves to \<open>p\<close> and one that is the opener (and not the parent) to \<open>o\<close>,
  also when it is a child frame as well. A target that is the \<open>i\<close>-th child frame, no
  earlier frame being the target, resolves to \<open>f,i\<close> when it is neither the parent nor
  the opener and the \<^verbatim>\<open>instanceof\<close> guard holds. Inside \<^verbatim>\<open>transverseLevel\<close> the order
  is frames, then parent, then opener, before any recursion and at every level.
\<close>

theorem resolver_priority:
  assumes "currentWindow \<noteq> t"
  shows "(parent (g currentWindow) = Some t \<longrightarrow>
            serializeWindowReference n g currentWindow (TWin t) = Return ''p'')
       \<and> (parent (g currentWindow) \<noteq> Some t \<and> opener (g currentWindow) = Some t \<longrightarrow>
            serializeWindowReference n g currentWindow (TWin t) = Return ''o'')
       \<and> (parent (g currentWindow) \<noteq> Some t \<and> opener (g currentWindow) \<noteq> Some t
            \<and> framesGuard (g currentWindow) = GTrue
            \<and> i < length (frames (g currentWindow)) \<and> frames (g currentWindow) ! i = t
            \<and> (\<forall>j < i. frames (g currentWindow) ! j \<noteq> t) \<longrightarrow>
            serializeWindowReference (Suc n) g currentWindow (TWin t)
              = Return (''f,'' @ numberToString i))
       \<and> (framesGuard (g w) = GTrue
            \<and> i < length (frames (g w)) \<and> frames (g w) ! i = t
            \<and> (\<forall>j < i. frames (g w) ! j \<noteq> t) \<longrightarrow>
            transverseLevel (Suc n) g w t lvl = Return (Some (''f,'' @ numberToString i)))
       \<and> (directFrame (g w) t = Return None \<and> parent (g w) = Some t \<longrightarrow>
            transverseLevel (Suc n) g w t lvl = Return (Some ''p''))
       \<and> (directFrame (g w) t = Return None \<and> parent (g w) \<noteq> Some t
            \<and> opener (g w) = Some t \<longrightarrow>
            transverseLevel (Suc n) g w t lvl = Return (Some ''o''))"
proof -
  have fi: "frameIndex fs t 0 = Some i"
    if "i < length fs" "fs ! i = t" "\<forall>j < i. fs ! j \<noteq> t" for fs
    using that frameIndex_first [of i fs t 0] by simp
  have df: "directFrame (g v) t = Return (Some (''f,'' @ numberToString i))"
    if "framesGuard (g v) = GTrue" "i < length (frames (g v))" "frames (g v) ! i = t"
       "\<forall>j < i. frames (g v) ! j \<noteq> t" for v
    using that fi [of "frames (g v)"] by (auto simp: directFrame_def)
  show ?thesis
    using assms df [of currentWindow] df [of w]
    by (auto simp del: transverseLevel.simps simp add: transverseLevel.simps(2))
qed

theorem resolver_priority_witness:
  "(1::nat) \<noteq> 0 \<and> parent (familyGraph 1) = Some 0
   \<and> serializeWindowReference 0 familyGraph 1 (TWin 0) = Return ''p''
   \<and> directFrame (familyGraph 1) 0 = Return None
   \<and> transverseLevel (Suc 0) familyGraph 1 0 LUndefined = Return (Some ''p'')
   \<and> (0::nat) \<noteq> 3 \<and> parent (familyGraph 0) \<noteq> Some 3 \<and> opener (familyGraph 0) = Some 3
   \<and> serializeWindowReference 0 familyGraph 0 (TWin 3) = Return ''o''
   \<and> directFrame (familyGraph 0) 3 = Return None
   \<and> transverseLevel (Suc 0) familyGraph 0 3 LUndefined = Return (Some ''o'')
   \<and> (0::nat) \<noteq> 2 \<and> parent (familyGraph 0) \<noteq> Some 2 \<and> opener (familyGraph 0) \<noteq> Some 2
   \<and> framesGuard (familyGraph 0) = GTrue \<and> 1 < length (frames (familyGraph 0))
   \<and> frames (familyGraph 0) ! 1 = 2 \<and> frames (familyGraph 0) ! 0 \<noteq> 2
   \<and> serializeWindowReference (Suc 0) familyGraph 0 (TWin 2) = Return ''f,1''
   \<and> transverseLevel (Suc 0) familyGraph 0 2 LUndefined = Return (Some ''f,1'')"
proof -
  have fam:
    "familyGraph 0
       = \<lparr>frames = [1, 2], parent = Some 0, opener = Some 3, framesGuard = GTrue\<rparr>"
    "familyGraph 1 = \<lparr>frames = [], parent = Some 0, opener = None, framesGuard = GFalse\<rparr>"
    by (simp_all add: familyGraph_def)
  have d: "directFrame (familyGraph 1) 0 = Return None"
    "directFrame (familyGraph 0) 3 = Return None"
    by (simp_all add: fam directFrame_def del: One_nat_def)
  have one: "numberToString 1 = ''1''" by code_simp
  have all1: "\<forall>j<1. frames (familyGraph 0) ! j \<noteq> 2" by (simp add: fam)
  note a = resolver_priority [of 1 0 familyGraph 0 0 1 LUndefined]
  note b = resolver_priority [of 0 3 familyGraph 0 0 0 LUndefined]
  note c = resolver_priority [of 0 2 familyGraph 0 1 0 LUndefined]
  show ?thesis
    using a b c d all1
    by (simp add: fam one
        del: One_nat_def transverseLevel.simps serializeWindowReference.simps)
qed

text \<open>
  C4 as stated fails: on the page whose only frame is also its opener the target is the
  direct child frame 0, and the path returned is \<open>o\<close>, not \<open>f,0\<close>; where the frame is
  also the parent, the path returned is \<open>p\<close>.
\<close>

theorem frame_priority_counterexample:
  "frames (openerFrameGraph 0) ! 0 = 1 \<and> opener (openerFrameGraph 0) = Some 1
   \<and> framesGuard (openerFrameGraph 0) = GTrue
   \<and> serializeWindowReference 1 openerFrameGraph 0 (TWin 1) = Return ''o''
   \<and> serializeWindowReference 1 openerFrameGraph 0 (TWin 1) \<noteq> Return ''f,0''
   \<and> frames (parentFrameGraph 0) ! 0 = 1 \<and> parent (parentFrameGraph 0) = Some 1
   \<and> framesGuard (parentFrameGraph 0) = GTrue
   \<and> serializeWindowReference 1 parentFrameGraph 0 (TWin 1) = Return ''p''
   \<and> serializeWindowReference 1 parentFrameGraph 0 (TWin 1) \<noteq> Return ''f,0''"
  by (simp add: openerFrameGraph_def parentFrameGraph_def)

section \<open>Properties of the receiver\<close>

lemma receiveAll_invariant:
  "(handlers p = [] \<longleftrightarrow> nativeListeners p = 0) \<Longrightarrow> nativeListeners p \<le> 1 \<Longrightarrow>
   (handlers (receiveAll p regs) = [] \<longleftrightarrow> nativeListeners (receiveAll p regs) = 0)
   \<and> nativeListeners (receiveAll p regs) \<le> 1"
proof (induction regs arbitrary: p)
  case Nil
  then show ?case by simp
next
  case (Cons reg regs)
  obtain callback rule where reg: "reg = (callback, rule)" by (cases reg)
  show ?case
  proof (cases callback)
    case None
    then show ?thesis using Cons reg by (simp add: receiveMessage_def)
  next
    case (Some cb)
    let ?p = "jqOn p (cb, defaultRule rule)"
    have "(handlers ?p = [] \<longleftrightarrow> nativeListeners ?p = 0)" "nativeListeners ?p \<le> 1"
      using Cons.prems by (auto simp: jqOn_def)
    then show ?thesis using Cons.IH [of ?p] reg Some by (simp add: receiveMessage_def)
  qed
qed

lemma receiveAll_handlers:
  "handlers (receiveAll p regs)
     = handlers p @ [(cb, defaultRule rule). (Some cb, rule) \<leftarrow> regs]"
proof (induction regs arbitrary: p)
  case Nil
  then show ?case by simp
next
  case (Cons reg regs)
  obtain callback rule where reg: "reg = (callback, rule)" by (cases reg)
  show ?case using Cons.IH reg
    by (cases callback) (simp_all add: receiveMessage_def jqOn_def)
qed

lemma runHandlers_native:
  "runHandlers hs \<lparr>originalEvent = Some \<lparr>neData = d, neOrigin = o1\<rparr>,
       evData = Undefined, evOrigin = Undefined\<rparr> Undefined Undefined
   = [(cb, \<lparr>data = d, origin = o1\<rparr>). (cb, rule) \<leftarrow> hs, isOriginMatch rule o1]"
  by (induction hs) (auto simp: runHandlers_def List.map_filter_simps messageHandler_def)

text \<open>
  C5: whatever calls of \<^verbatim>\<open>$.receiveMessage\<close> a page makes, at most one native listener
  is installed; the dispatch table holds one entry per successful call, in order, each
  with its callback and its own rule (\<open>"*"\<close> when none was given); and a native message
  with data \<open>d\<close> from origin \<open>o1\<close> calls every entry whose rule matches \<open>o1\<close>, once, with
  \<open>{data: d, origin: o1}\<close>, and no other entry.
\<close>

theorem single_listener_dispatch:
  "nativeListeners (receiveAll initialPage regs) \<le> 1
   \<and> handlers (receiveAll initialPage regs)
       = [(cb, defaultRule rule). (Some cb, rule) \<leftarrow> regs]
   \<and> nativeMessage (receiveAll initialPage regs) \<lparr>neData = d, neOrigin = o1\<rparr>
       = [(cb, \<lparr>data = d, origin = o1\<rparr>).
            (cb, rule) \<leftarrow> handlers (receiveAll initialPage regs), isOriginMatch rule o1]"
proof -
  let ?p = "receiveAll initialPage regs"
  have inv: "(handlers ?p = [] \<longleftrightarrow> nativeListeners ?p = 0)" "nativeListeners ?p \<le> 1"
    using receiveAll_invariant [of initialPage regs] by (simp_all add: initialPage_def)
  have h: "handlers ?p = [(cb, defaultRule rule). (Some cb, rule) \<leftarrow> regs]"
    using receiveAll_handlers [of initialPage regs] by (simp add: initialPage_def)
  have "nativeListeners ?p = 0 \<or> nativeListeners ?p = 1" using inv(2) by auto
  then have n: "nativeMessage ?p \<lparr>neData = d, neOrigin = o1\<rparr>
       = [(cb, \<lparr>data = d, origin = o1\<rparr>). (cb, rule) \<leftarrow> handlers ?p, isOriginMatch rule o1]"
  proof
    assume z: "nativeListeners ?p = 0"
    then have "handlers ?p = []" using inv(1) by simp
    then show ?thesis using z by (simp add: nativeMessage_def)
  next
    assume "nativeListeners ?p = 1"
    then show ?thesis by (simp add: nativeMessage_def runHandlers_native)
  qed
  show ?thesis using inv(2) h n by blast
qed

lemma examplePage_eq:
  "examplePage = \<lparr>nativeListeners = 1,
     handlers = [(0, RVal (Str ''*'')), (1, RVal (Str ''http://a.example''))]\<rparr>"
  by (simp add: examplePage_def initialPage_def receiveMessage_def jqOn_def defaultRule_def)






text \<open>
  C8 as the code has it. For an event that carries a native \<^verbatim>\<open>originalEvent\<close> the rule
  is checked against the origin of that event, whatever origin argument was supplied,
  and a supplied non-empty origin is the one the callback is told. For an event without
  \<^verbatim>\<open>originalEvent\<close> (a triggered one) the rule is checked against the value the callback
  is told: the supplied origin when it is not empty, the event's own origin otherwise.
\<close>

theorem messageHandler_validated_origin:
  "(originalEvent ev = Some oe \<longrightarrow>
      messageHandler rule ev d o1
        = (if isOriginMatch rule (neOrigin oe)
           then Some \<lparr>data = (if truthy d then d else neData oe),
                      origin = (if truthy o1 then o1 else neOrigin oe)\<rparr>
           else None))
   \<and> (originalEvent ev = None \<longrightarrow>
      messageHandler rule ev d o1
        = (if isOriginMatch rule (if truthy o1 then o1 else evOrigin ev)
           then Some \<lparr>data = (if truthy d then d else evData ev),
                      origin = (if truthy o1 then o1 else evOrigin ev)\<rparr>
           else None))"
  by (simp add: messageHandler_def)

theorem messageHandler_validated_origin_witness:
  "originalEvent \<lparr>originalEvent = Some \<lparr>neData = Str ''hi'', neOrigin = Str ''http://a.example''\<rparr>,
       evData = Undefined, evOrigin = Undefined\<rparr>
     = Some \<lparr>neData = Str ''hi'', neOrigin = Str ''http://a.example''\<rparr>
   \<and> messageHandler (RVal (Str ''http://a.example''))
        \<lparr>originalEvent = Some \<lparr>neData = Str ''hi'', neOrigin = Str ''http://a.example''\<rparr>,
         evData = Undefined, evOrigin = Undefined\<rparr>
        Undefined (Str ''http://b.example'')
     = Some \<lparr>data = Str ''hi'', origin = Str ''http://b.example''\<rparr>
   \<and> originalEvent \<lparr>originalEvent = None, evData = Undefined, evOrigin = Undefined\<rparr> = None
   \<and> messageHandler (RVal (Str ''http://a.example''))
        \<lparr>originalEvent = None, evData = Undefined, evOrigin = Undefined\<rparr>
        (Str ''hi'') (Str ''http://b.example'')
     = None"
  using messageHandler_validated_origin
          [of "\<lparr>originalEvent = Some \<lparr>neData = Str ''hi'', neOrigin = Str ''http://a.example''\<rparr>,
                 evData = Undefined, evOrigin = Undefined\<rparr>"
              "\<lparr>neData = Str ''hi'', neOrigin = Str ''http://a.example''\<rparr>"
              "RVal (Str ''http://a.example'')" Undefined "Str ''http://b.example''"]
        messageHandler_validated_origin
          [of "\<lparr>originalEvent = None, evData = Undefined, evOrigin = Undefined\<rparr>"
              "\<lparr>neData = Str ''hi'', neOrigin = Str ''http://a.example''\<rparr>"
              "RVal (Str ''http://a.example'')" "Str ''hi''" "Str ''http://b.example''"]
  by simp

text \<open>
  C8 as stated fails for a triggered event: the event's own origin is
  \<open>http://b.example\<close>, the caller supplies \<open>http://a.example\<close>, and the callback
  registered for \<open>http://a.example\<close> is called, though the rule rejects the event's own
  origin. The same holds for the synthetic event of the hook, which has no origin of
  its own, when the trigger forwards the supplied origin.
\<close>

theorem validated_origin_counterexample:
  "messageHandler (RVal (Str ''http://a.example''))
        \<lparr>originalEvent = None, evData = Undefined, evOrigin = Str ''http://b.example''\<rparr>
        (Str ''hi'') (Str ''http://a.example'')
     = Some \<lparr>data = Str ''hi'', origin = Str ''http://a.example''\<rparr>
   \<and> \<not> isOriginMatch (RVal (Str ''http://a.example''))
          (evOrigin \<lparr>originalEvent = None, evData = Undefined,
                     evOrigin = Str ''http://b.example''\<rparr>)
   \<and> receiveMessageHook 2 examplePage ''hi'' (Str ''http://a.example'')
     = Return [(0, \<lparr>data = Str ''hi'', origin = Str ''http://a.example''\<rparr>),
               (1, \<lparr>data = Str ''hi'', origin = Str ''http://a.example''\<rparr>)]
   \<and> \<not> isOriginMatch (RVal (Str ''http://a.example''))
          (evOrigin \<lparr>originalEvent = None, evData = Undefined, evOrigin = Undefined\<rparr>)"
proof -
  have d: "decodeURIComponent ''hi'' = Some ''hi''" by code_simp
  show ?thesis
    by (simp add: messageHandler_def receiveMessageHook_def d jqTrigger_def examplePage_eq
        runHandlers_def List.map_filter_simps argAt_def)
qed

section \<open>Properties of the sender\<close>

text \<open>
  C9: \<^verbatim>\<open>$.postMessage\<close> checks its arguments first and in order. An absent or empty
  \<^verbatim>\<open>targetHost\<close> makes it throw the missing-origin error, whatever the target; with a
  \<^verbatim>\<open>targetHost\<close> that passed the first check, an absent target makes it throw the
  missing-target error. In both cases nothing was delivered and the sender's state is
  as before.
\<close>

theorem postMessage_missing_arguments:
  "(targetHost = None \<or> targetHost = Some [] \<longrightarrow>
      postMessage e s message targetHost targetWindow targetWindowName
        = (Throw MissingOrigin, s))
   \<and> (targetHost = Some url \<and> url \<noteq> [] \<and> targetWindow = None \<longrightarrow>
      postMessage e s message targetHost targetWindow targetWindowName
        = (Throw MissingTarget, s))"
  by (auto simp: postMessage_def)

theorem postMessage_missing_arguments_witness:
  "postMessage nativeEnv sender0 ''hi'' None (Some 1) None = (Throw MissingOrigin, sender0)
   \<and> postMessage nativeEnv sender0 ''hi'' (Some []) (Some 1) None = (Throw MissingOrigin, sender0)
   \<and> ''http://a.example/x'' \<noteq> []
   \<and> postMessage nativeEnv sender0 ''hi'' (Some ''http://a.example/x'') None None
        = (Throw MissingTarget, sender0)"
  using postMessage_missing_arguments
          [where targetHost = None and e = nativeEnv and s = sender0 and message = "''hi''"
             and targetWindow = "Some 1" and targetWindowName = None]
        postMessage_missing_arguments
          [where targetHost = "Some []" and e = nativeEnv and s = sender0
             and message = "''hi''" and targetWindow = "Some 1" and targetWindowName = None]
        postMessage_missing_arguments
          [where targetHost = "Some ''http://a.example/x''" and url = "''http://a.example/x''"
             and e = nativeEnv and s = sender0 and message = "''hi''"
             and targetWindow = None and targetWindowName = None]
  by simp

text \<open>
  C2 as the code has it: with a non-empty \<^verbatim>\<open>targetHost\<close>, sending to the sender's own
  window throws the self-reference error exactly when the proxy fallback is reached
  with no window name, that is when the native call is not available or raises the
  known number \<open>-2147467262\<close>, the hook of the window cannot be read, is absent or
  throws, and \<^verbatim>\<open>targetWindowName\<close> is absent or empty.
\<close>

theorem postMessage_self_target:
  assumes "url \<noteq> []"
  shows "postMessage e s message (Some url) (Some (thisWindow e)) targetWindowName
           = (Throw SelfReference, s)
         \<longleftrightarrow> ((\<not> browserSupportsPostMessage e
               \<or> nativePostMessage e (thisWindow e) message (getDomainFromUrl url)
                    = Raises (Some (- 2147467262)))
              \<and> hookAttempt e (thisWindow e) message (getDomainFromUrl url) = None
              \<and> (targetWindowName = None \<or> targetWindowName = Some []))"
  using assms
  by (auto simp: postMessage_def postMessageFallback_def proxyTarget_def Let_def
      split: nativeResult.splits option.splits result.splits if_splits)

theorem postMessage_self_target_witness:
  "''http://a.example/x'' \<noteq> []
   \<and> \<not> browserSupportsPostMessage legacyEnv
   \<and> hookAttempt legacyEnv (thisWindow legacyEnv) ''hi'' (getDomainFromUrl ''http://a.example/x'')
       = None
   \<and> postMessage legacyEnv sender0 ''hi'' (Some ''http://a.example/x'')
        (Some (thisWindow legacyEnv)) None
       = (Throw SelfReference, sender0)"
proof -
  have a: "\<not> browserSupportsPostMessage legacyEnv" by (simp add: legacyEnv_def)
  have b: "hookAttempt legacyEnv (thisWindow legacyEnv) ''hi''
             (getDomainFromUrl ''http://a.example/x'') = None"
    by (simp add: legacyEnv_def hookAttempt_def)
  have c: "''http://a.example/x'' \<noteq> []" by simp
  show ?thesis
    using postMessage_self_target [OF c, of legacyEnv sender0 "''hi''" None] a b
    by simp
qed

text \<open>
  C2 as stated fails: where the native call succeeds the message is posted to the
  sender's own window and nothing is thrown; where the native call is missing and the
  window exposes the hook, the message is delivered through the hook; and where a
  window name is given, the proxy frame is created.
\<close>

theorem self_target_counterexample:
  "postMessage nativeEnv sender0 ''hi'' (Some ''http://a.example/x'')
      (Some (thisWindow nativeEnv)) None
     = (Return (ByNative 0 ''hi'' ''http://a.example''), sender0)
   \<and> postMessage (nativeEnv\<lparr>browserSupportsPostMessage := False\<rparr>) sender0 ''hi''
        (Some ''http://a.example/x'') (Some (thisWindow nativeEnv)) None
     = (Return (ByHook 0 [(0, \<lparr>data = Str ''hi'', origin = Str ''http://a.example''\<rparr>),
                          (1, \<lparr>data = Str ''hi'', origin = Str ''http://a.example''\<rparr>)]),
        sender0)
   \<and> postMessage legacyEnv sender0 ''hi'' (Some ''http://a.example/x'')
        (Some (thisWindow legacyEnv)) (Some ''popup'')
     = (Return (ByProxy
          ''http://a.example/vp/JS-Lib/jQuery/plugins/postmessage.htm#12341&:popup&http://a.example&hi''),
        \<lparr>cacheBuster = 2, hiddenFrames =
          [''http://a.example/vp/JS-Lib/jQuery/plugins/postmessage.htm#12341&:popup&http://a.example&hi'']\<rparr>)"
proof -
  have host: "getDomainFromUrl ''http://a.example/x'' = ''http://a.example''" by code_simp
  have d: "decodeURIComponent ''hi'' = Some ''hi''" by code_simp
  have e: "encodeURIComponent ''hi'' = ''hi''" by code_simp
  have h2: "getDomainFromUrl ''http://a.example/page'' = ''http://a.example''" by code_simp
  have n1: "numberToString 1234 = ''1234''" "numberToString 1 = ''1''" by code_simp+
  show ?thesis
    by (simp add: postMessage_def postMessageFallback_def nativeEnv_def legacyEnv_def host
        hookAttempt_def receiveMessageHook_def d jqTrigger_def examplePage_eq runHandlers_def
        List.map_filter_simps messageHandler_def argAt_def sender0_def proxyTarget_def
        proxySrc_def e h2 n1 Let_def del: One_nat_def)
qed

end
